theory Spec2Isabelle
  imports Complex_Main
begin

section \<open>The projection engine of Stackd\<close>

text \<open>
  The page module holds the whole engine: the frequency helpers, the closed-form balance
  calculator, the yearly trajectory, the validity gate, and the memoised values of the
  \<open>Home\<close> component (projection, chart data, comparison scenarios, account warning and
  account confirmation). The repository has two variants of the page; their engine
  functions are textually identical, the second one adds account-specific contribution
  fields.

  Numbers are JavaScript doubles in the source. They are modelled as mathematical reals:
  rounding error, \<open>NaN\<close> and the infinities are outside the model. Every statement below
  is a statement of exact real arithmetic.
\<close>

subsection \<open>Types\<close>

datatype CompoundFrequency = Annually | SemiAnnually | Quarterly | Monthly | Daily

text \<open>The empty string of the source's \<open>AccountType\<close> is \<open>Unselected\<close>.\<close>

datatype AccountType = TFSA | RRSP | FHSA | RESP | General | Unselected

record projection =
  totalBalance :: real
  totalContributed :: real
  totalInterest :: real

record yearPoint =
  pt_year :: nat
  pt_totalBalance :: real
  pt_totalContributed :: real
  pt_showLabel :: bool

subsection \<open>Library primitives\<close>

text \<open>
  \<open>Math.pow\<close> on a positive base is the real power. The engine only calls it with base
  \<open>1 + r / n\<close>, which is at least 1 whenever the rate is not negative.
\<close>

definition Math_pow :: "real \<Rightarrow> real \<Rightarrow> real" where
  "Math_pow x y = x powr y"

text \<open>\<open>Math.round\<close> rounds to the nearest integer, halves upwards.\<close>

definition Math_round :: "real \<Rightarrow> int" where
  "Math_round x = \<lfloor>x + 1 / 2\<rfloor>"

definition Math_floor :: "real \<Rightarrow> int" where
  "Math_floor x = \<lfloor>x\<rfloor>"

subsection \<open>Frequency helpers\<close>

text \<open>
  The \<open>default\<close> branches of the two switches are unreachable for a value of the
  union type \<open>CompoundFrequency\<close>; the select element offers exactly the five values.
\<close>

fun getCompoundFrequencyPerYear :: "CompoundFrequency \<Rightarrow> real" where
  "getCompoundFrequencyPerYear Annually = 1"
| "getCompoundFrequencyPerYear SemiAnnually = 2"
| "getCompoundFrequencyPerYear Quarterly = 4"
| "getCompoundFrequencyPerYear Monthly = 12"
| "getCompoundFrequencyPerYear Daily = 365"

fun getContributionPerPeriod :: "real \<Rightarrow> CompoundFrequency \<Rightarrow> real" where
  "getContributionPerPeriod monthlyContribution Annually = monthlyContribution * 12"
| "getContributionPerPeriod monthlyContribution SemiAnnually = monthlyContribution * 6"
| "getContributionPerPeriod monthlyContribution Quarterly = monthlyContribution * 3"
| "getContributionPerPeriod monthlyContribution Monthly = monthlyContribution"
| "getContributionPerPeriod monthlyContribution Daily = monthlyContribution / (365 / 12)"

subsection \<open>Balance calculator\<close>

definition calculateCompoundInterest ::
  "real \<Rightarrow> real \<Rightarrow> real \<Rightarrow> real \<Rightarrow> CompoundFrequency \<Rightarrow> projection" where
  "calculateCompoundInterest initialInvestment monthlyContribution annualReturn years frequency =
     (let P = initialInvestment;
          r = annualReturn / 100;
          n = getCompoundFrequencyPerYear frequency;
          t = years;
          PMT = getContributionPerPeriod monthlyContribution frequency;
          compoundPrincipal = P * Math_pow (1 + r / n) (n * t);
          annuityValue =
            (if r > 0 then PMT * ((Math_pow (1 + r / n) (n * t) - 1) / (r / n))
             else PMT * n * t);
          balance = compoundPrincipal + annuityValue;
          contributed = P + monthlyContribution * 12 * t;
          interest = balance - contributed
      in \<lparr>totalBalance = balance, totalContributed = contributed, totalInterest = interest\<rparr>)"

subsection \<open>Trajectory generator\<close>

text \<open>
  The set of label years holds numbers: the three rounded quartiles, 0 and \<open>years\<close>
  itself (which is a whole number only if the horizon is).
\<close>

definition labelYears :: "real \<Rightarrow> real set" where
  "labelYears years =
     {0, of_int (Math_round (years * 0.25)), of_int (Math_round (years * 0.5)),
      of_int (Math_round (years * 0.75)), years}"

text \<open>The body of the loop, for the loop counter \<open>t\<close>.\<close>

definition yearlyPoint ::
  "real \<Rightarrow> real \<Rightarrow> real \<Rightarrow> real \<Rightarrow> CompoundFrequency \<Rightarrow> nat \<Rightarrow> yearPoint" where
  "yearlyPoint initialInvestment monthlyContribution annualReturn years frequency t =
     (let r = annualReturn / 100;
          n = getCompoundFrequencyPerYear frequency;
          PMT = getContributionPerPeriod monthlyContribution frequency;
          compoundPrincipal = initialInvestment * Math_pow (1 + r / n) (n * real t);
          annuityValue =
            (if r > 0 then PMT * ((Math_pow (1 + r / n) (n * real t) - 1) / (r / n))
             else PMT * n * real t);
          balance = compoundPrincipal + annuityValue;
          contributed = initialInvestment + monthlyContribution * 12 * real t
      in \<lparr>pt_year = t, pt_totalBalance = balance, pt_totalContributed = contributed,
          pt_showLabel = (real t \<in> labelYears years)\<rparr>)"

text \<open>
  \<open>for (let t = 0; t <= years; t++) data.push(...)\<close>: the counter takes the values
  0, 1, 2, ... and the loop stops at the first one above \<open>years\<close>.
\<close>

function yearlyLoop ::
  "real \<Rightarrow> real \<Rightarrow> real \<Rightarrow> real \<Rightarrow> CompoundFrequency \<Rightarrow> nat \<Rightarrow> yearPoint list
     \<Rightarrow> yearPoint list" where
  "yearlyLoop initialInvestment monthlyContribution annualReturn years frequency t data =
     (if real t \<le> years
      then yearlyLoop initialInvestment monthlyContribution annualReturn years frequency (Suc t)
             (data @ [yearlyPoint initialInvestment monthlyContribution annualReturn years
                        frequency t])
      else data)"
  by pat_completeness auto
termination
proof (relation "measure (\<lambda>(i, m, a, years, f, t, d). nat \<lfloor>years\<rfloor> + 1 - t)")
  show "wf (measure (\<lambda>(i, m, a, years, f, t, d). nat \<lfloor>years\<rfloor> + 1 - t))"
    by simp
next
  fix initialInvestment monthlyContribution annualReturn years :: real
  fix frequency :: CompoundFrequency and t :: nat and data :: "yearPoint list"
  assume "real t \<le> years"
  then have "int t \<le> \<lfloor>years\<rfloor>"
    by (simp add: le_floor_iff)
  then have "t \<le> nat \<lfloor>years\<rfloor>"
    by linarith
  then show "((initialInvestment, monthlyContribution, annualReturn, years, frequency, Suc t,
       data @ [yearlyPoint initialInvestment monthlyContribution annualReturn years frequency t]),
      (initialInvestment, monthlyContribution, annualReturn, years, frequency, t, data))
     \<in> measure (\<lambda>(i, m, a, years, f, t, d). nat \<lfloor>years\<rfloor> + 1 - t)"
    by simp
qed

declare yearlyLoop.simps [simp del]

definition calculateYearlyData ::
  "real \<Rightarrow> real \<Rightarrow> real \<Rightarrow> real \<Rightarrow> CompoundFrequency \<Rightarrow> yearPoint list" where
  "calculateYearlyData initialInvestment monthlyContribution annualReturn years frequency =
     yearlyLoop initialInvestment monthlyContribution annualReturn years frequency 0 []"

subsection \<open>Validity check\<close>

definition isValidInputs :: "real \<Rightarrow> real \<Rightarrow> real \<Rightarrow> real \<Rightarrow> bool" where
  "isValidInputs initial monthly years returnRate \<longleftrightarrow>
     (initial > 0 \<or> monthly > 0) \<and> years > 0 \<and> years \<le> 100 \<and>
     returnRate \<ge> 0 \<and> returnRate \<le> 100"

subsection \<open>The memoised values of the page\<close>

text \<open>
  A form field holds text. \<open>parseFloat\<close> of it is a number or \<open>NaN\<close>, modelled as
  \<open>Some x\<close> or \<open>None\<close>; \<open>parseFloat(s) || 0\<close> maps both \<open>NaN\<close> and 0 to 0.
\<close>

definition orZero :: "real option \<Rightarrow> real" where
  "orZero v = (case v of None \<Rightarrow> 0 | Some x \<Rightarrow> x)"

text \<open>
  The state of the page, each text field already through \<open>parseFloat\<close>. The first
  variant of the page has the first six fields only.
\<close>

record formState =
  initialInvestment :: "real option"
  monthlyContribution :: "real option"
  lengthOfTime :: "real option"
  annualReturn :: "real option"
  compoundFrequency :: CompoundFrequency
  accountType :: AccountType
  tfsaAnnualContribution :: "real option"
  tfsaContributionYears :: "real option"
  rrspAnnualIncome :: "real option"
  rrspAnnualContribution :: "real option"
  fhsaAnnualContribution :: "real option"
  respAnnualContribution :: "real option"

record scenario =
  sc_label :: string
  sc_years :: real
  sc_totalBalance :: real
  sc_highlight :: bool
  sc_missedAmount :: real

text \<open>
  The bodies of the memos \<open>results\<close>, \<open>chartData\<close> and \<open>comparisonScenarios\<close> are the
  same in both variants of the page, except for where \<open>monthly\<close> comes from. Each body
  is modelled once, on the four parsed numbers; \<open>null\<close> is \<open>None\<close>.
\<close>

definition resultsOf ::
  "real \<Rightarrow> real \<Rightarrow> real \<Rightarrow> real \<Rightarrow> CompoundFrequency \<Rightarrow> projection option" where
  "resultsOf initial monthly years returnRate frequency =
     (if \<not> isValidInputs initial monthly years returnRate then None
      else Some (calculateCompoundInterest initial monthly returnRate years frequency))"

definition chartDataOf ::
  "real \<Rightarrow> real \<Rightarrow> real \<Rightarrow> real \<Rightarrow> CompoundFrequency \<Rightarrow> yearPoint list option" where
  "chartDataOf initial monthly years returnRate frequency =
     (if \<not> isValidInputs initial monthly years returnRate then None
      else Some (calculateYearlyData initial monthly returnRate years frequency))"

definition comparisonScenariosOf ::
  "real \<Rightarrow> real \<Rightarrow> real \<Rightarrow> real \<Rightarrow> CompoundFrequency \<Rightarrow> scenario list option" where
  "comparisonScenariosOf initial monthly years returnRate frequency =
     (if \<not> isValidInputs initial monthly years returnRate then None
      else
        let startNow = calculateCompoundInterest initial monthly returnRate years frequency;
            startNowBalance = totalBalance startNow;
            scenarios0 =
              [\<lparr>sc_label = ''Start Now'', sc_years = years, sc_totalBalance = startNowBalance,
                sc_highlight = True, sc_missedAmount = 0\<rparr>];
            scenarios1 =
              (if years \<ge> 5 then
                 let wait5 = calculateCompoundInterest initial monthly returnRate (years - 5)
                               frequency
                 in scenarios0 @
                    [\<lparr>sc_label = ''Wait 5 Years'', sc_years = years - 5,
                      sc_totalBalance = totalBalance wait5, sc_highlight = False,
                      sc_missedAmount = startNowBalance - totalBalance wait5\<rparr>]
               else scenarios0);
            scenarios2 =
              (if years \<ge> 10 then
                 let wait10 = calculateCompoundInterest initial monthly returnRate (years - 10)
                                frequency
                 in scenarios1 @
                    [\<lparr>sc_label = ''Wait 10 Years'', sc_years = years - 10,
                      sc_totalBalance = totalBalance wait10, sc_highlight = False,
                      sc_missedAmount = startNowBalance - totalBalance wait10\<rparr>]
               else scenarios1)
        in Some scenarios2)"

subsubsection \<open>First variant: the monthly contribution field feeds the engine\<close>

definition resultsA :: "formState \<Rightarrow> projection option" where
  "resultsA st =
     resultsOf (orZero (initialInvestment st)) (orZero (monthlyContribution st))
       (orZero (lengthOfTime st)) (orZero (annualReturn st)) (compoundFrequency st)"

definition chartDataA :: "formState \<Rightarrow> yearPoint list option" where
  "chartDataA st =
     chartDataOf (orZero (initialInvestment st)) (orZero (monthlyContribution st))
       (orZero (lengthOfTime st)) (orZero (annualReturn st)) (compoundFrequency st)"

definition comparisonScenariosA :: "formState \<Rightarrow> scenario list option" where
  "comparisonScenariosA st =
     comparisonScenariosOf (orZero (initialInvestment st)) (orZero (monthlyContribution st))
       (orZero (lengthOfTime st)) (orZero (annualReturn st)) (compoundFrequency st)"

subsubsection \<open>Second variant: account-specific annual contributions\<close>

definition effectiveMonthly :: "formState \<Rightarrow> real" where
  "effectiveMonthly st =
     (if accountType st = TFSA then orZero (tfsaAnnualContribution st) / 12
      else if accountType st = RRSP then orZero (rrspAnnualContribution st) / 12
      else if accountType st = FHSA then orZero (fhsaAnnualContribution st) / 12
      else if accountType st = RESP then
        (let annual = orZero (respAnnualContribution st);
             cesg = min (annual * 0.20) 500
         in (annual + cesg) / 12)
      else orZero (monthlyContribution st))"

definition results :: "formState \<Rightarrow> projection option" where
  "results st =
     resultsOf (orZero (initialInvestment st)) (effectiveMonthly st)
       (orZero (lengthOfTime st)) (orZero (annualReturn st)) (compoundFrequency st)"

definition chartData :: "formState \<Rightarrow> yearPoint list option" where
  "chartData st =
     chartDataOf (orZero (initialInvestment st)) (effectiveMonthly st)
       (orZero (lengthOfTime st)) (orZero (annualReturn st)) (compoundFrequency st)"

definition comparisonScenarios :: "formState \<Rightarrow> scenario list option" where
  "comparisonScenarios st =
     comparisonScenariosOf (orZero (initialInvestment st)) (effectiveMonthly st)
       (orZero (lengthOfTime st)) (orZero (annualReturn st)) (compoundFrequency st)"

subsection \<open>Account rules\<close>

text \<open>
  The advisories are template strings in the source. Each template is a constructor here,
  carrying the numbers the template interpolates; the currency formatting of those numbers
  is presentation and is not modelled.
\<close>

datatype warning =
    TfsaAnnualExceeded
  | RrspLimitExceeded real real
  | FhsaAnnualExceeded real
  | FhsaInitialExceeded real
  | FhsaLifetimeReached int
  | RespLifetimeExceeded real
  | RespInitialExceeded real

datatype confirmation =
    TfsaWithinLimit real
  | RrspWithinLimit real real
  | FhsaWithinLimits real
  | RespWithinLimit real

text \<open>
  The account warning of the second variant. \<open>RrspLimitExceeded annual limit\<close> carries
  the contribution and the computed limit, \<open>FhsaLifetimeReached yearsUntilLimit\<close> the
  number of years after which the lifetime cap is reached.
\<close>

definition accountWarning :: "formState \<Rightarrow> warning option" where
  "accountWarning st =
     (if accountType st = Unselected \<or> accountType st = General then None
      else
        let initial = orZero (initialInvestment st) in
        if accountType st = TFSA then
          (let annual = orZero (tfsaAnnualContribution st)
           in if annual > 7000 then Some TfsaAnnualExceeded else None)
        else if accountType st = RRSP then
          (let income = orZero (rrspAnnualIncome st);
               annual = orZero (rrspAnnualContribution st)
           in if annual > 0 \<and> income > 0 then
                (let limit = min (income * 0.18) 31560
                 in if annual > limit then Some (RrspLimitExceeded annual limit) else None)
              else None)
        else if accountType st = FHSA then
          (let annual = orZero (fhsaAnnualContribution st)
           in if annual > 8000 then Some (FhsaAnnualExceeded annual)
              else if initial > 40000 then Some (FhsaInitialExceeded initial)
              else
                let years = orZero (lengthOfTime st)
                in if annual > 0 \<and> annual * years > 40000 then
                     (let yearsUntilLimit = Math_floor (40000 / annual)
                      in Some (FhsaLifetimeReached yearsUntilLimit))
                   else None)
        else if accountType st = RESP then
          (let annual = orZero (respAnnualContribution st);
               years = orZero (lengthOfTime st)
           in if annual > 0 \<and> annual * years > 50000
              then Some (RespLifetimeExceeded (annual * years))
              else if initial > 50000 then Some (RespInitialExceeded initial)
              else None)
        else None)"

text \<open>
  The account confirmation of the second variant: four independent \<open>if\<close> blocks, each
  guarded by the account type, falling through to \<open>null\<close>.
\<close>

definition accountConfirmation :: "formState \<Rightarrow> confirmation option" where
  "accountConfirmation st =
     (let tfsaAnnual = orZero (tfsaAnnualContribution st);
          income = orZero (rrspAnnualIncome st);
          rrspAnnual = orZero (rrspAnnualContribution st);
          limit = min (income * 0.18) 31560;
          fhsaAnnual = orZero (fhsaAnnualContribution st);
          respAnnual = orZero (respAnnualContribution st);
          years = orZero (lengthOfTime st)
      in if accountType st = TFSA \<and> tfsaAnnual > 0 \<and> tfsaAnnual \<le> 7000
         then Some (TfsaWithinLimit tfsaAnnual)
         else if accountType st = RRSP \<and> rrspAnnual > 0 \<and> income > 0 \<and> rrspAnnual \<le> limit
         then Some (RrspWithinLimit rrspAnnual limit)
         else if accountType st = FHSA \<and> fhsaAnnual > 0 \<and> fhsaAnnual \<le> 8000
                 \<and> fhsaAnnual * years \<le> 40000
         then Some (FhsaWithinLimits fhsaAnnual)
         else if accountType st = RESP \<and> respAnnual > 0 \<and> respAnnual * years \<le> 50000
         then Some (RespWithinLimit respAnnual)
         else None)"

text \<open>
  The account warning of the first variant works on twelve times the monthly
  contribution and on the table \<open>ACCOUNT_LIMITS\<close>; that variant has no income field and
  no confirmation.
\<close>

record limits =
  annualLimit :: "real option"
  lifetimeLimit :: "real option"

fun ACCOUNT_LIMITS :: "AccountType \<Rightarrow> limits option" where
  "ACCOUNT_LIMITS TFSA = Some \<lparr>annualLimit = Some 7000, lifetimeLimit = None\<rparr>"
| "ACCOUNT_LIMITS RRSP = Some \<lparr>annualLimit = Some 31560, lifetimeLimit = None\<rparr>"
| "ACCOUNT_LIMITS FHSA = Some \<lparr>annualLimit = Some 8000, lifetimeLimit = Some 40000\<rparr>"
| "ACCOUNT_LIMITS RESP = Some \<lparr>annualLimit = None, lifetimeLimit = Some 50000\<rparr>"
| "ACCOUNT_LIMITS General = Some \<lparr>annualLimit = None, lifetimeLimit = None\<rparr>"
| "ACCOUNT_LIMITS Unselected = None"

datatype warningA =
    RespInitialOverA real
  | FhsaAnnualOverA real real int
  | FhsaInitialOverA real
  | AnnualOverA AccountType real real real int

definition accountWarningA :: "formState \<Rightarrow> warningA option" where
  "accountWarningA st =
     (if accountType st = Unselected \<or> accountType st = General then None
      else
        let initial = orZero (initialInvestment st);
            monthly = orZero (monthlyContribution st);
            annual = monthly * 12
        in case ACCOUNT_LIMITS (accountType st) of
             None \<Rightarrow> None
           | Some lims \<Rightarrow>
               if accountType st = RESP then
                 (if initial > 50000 then Some (RespInitialOverA initial) else None)
               else if accountType st = FHSA then
                 (if annual > 8000
                  then Some (FhsaAnnualOverA monthly annual (Math_floor (8000 / 12)))
                  else if initial > 40000 then Some (FhsaInitialOverA initial)
                  else None)
               else
                 (case annualLimit lims of
                    Some l \<Rightarrow>
                      if annual > l
                      then Some (AnnualOverA (accountType st) monthly annual l
                                   (Math_floor (l / 12)))
                      else None
                  | None \<Rightarrow> None))"

text \<open>
  The page starts with every text field empty (\<open>parseFloat("")\<close> is \<open>NaN\<close>), monthly
  compounding and no account selected.
\<close>

definition initialForm :: formState where
  "initialForm =
     \<lparr>initialInvestment = None, monthlyContribution = None, lengthOfTime = None,
      annualReturn = None, compoundFrequency = Monthly, accountType = Unselected,
      tfsaAnnualContribution = None, tfsaContributionYears = None, rrspAnnualIncome = None,
      rrspAnnualContribution = None, fhsaAnnualContribution = None,
      respAnnualContribution = None\<rparr>"

section \<open>The specification's formulations\<close>

text \<open>
  The definitions of this section follow the words of the specification, not the code;
  the theorems below compare them with the code.
\<close>

text \<open>Frequency Resolver: the fixed mapping and the per-period conversion.\<close>

fun spec_periodsPerYear :: "CompoundFrequency \<Rightarrow> nat" where
  "spec_periodsPerYear Annually = 1"
| "spec_periodsPerYear SemiAnnually = 2"
| "spec_periodsPerYear Quarterly = 4"
| "spec_periodsPerYear Monthly = 12"
| "spec_periodsPerYear Daily = 365"

fun spec_perPeriodContribution :: "real \<Rightarrow> CompoundFrequency \<Rightarrow> real" where
  "spec_perPeriodContribution monthlyAmount Annually = monthlyAmount * 12"
| "spec_perPeriodContribution monthlyAmount SemiAnnually = monthlyAmount * 6"
| "spec_perPeriodContribution monthlyAmount Quarterly = monthlyAmount * 3"
| "spec_perPeriodContribution monthlyAmount Monthly = monthlyAmount * 1"
| "spec_perPeriodContribution monthlyAmount Daily = monthlyAmount / (365 / 12)"

text \<open>
  Balance Calculator, for a real horizon (the power is the real power) and for a horizon
  of whole years (the power is iterated multiplication over \<open>n * T\<close> periods).
\<close>

definition spec_project ::
  "real \<Rightarrow> real \<Rightarrow> real \<Rightarrow> real \<Rightarrow> CompoundFrequency \<Rightarrow> projection" where
  "spec_project P M R T F =
     (let r = R / 100;
          n = real (spec_periodsPerYear F);
          PMT = spec_perPeriodContribution M F;
          compoundedPrincipal = P * (1 + r / n) powr (n * T);
          annuityValue =
            (if r > 0 then PMT * (((1 + r / n) powr (n * T) - 1) / (r / n))
             else PMT * n * T);
          finalBalance = compoundedPrincipal + annuityValue
      in \<lparr>totalBalance = finalBalance, totalContributed = P + M * 12 * T,
          totalInterest = finalBalance - (P + M * 12 * T)\<rparr>)"

definition spec_project_whole ::
  "real \<Rightarrow> real \<Rightarrow> real \<Rightarrow> nat \<Rightarrow> CompoundFrequency \<Rightarrow> projection" where
  "spec_project_whole P M R T F =
     (let r = R / 100;
          n = spec_periodsPerYear F;
          PMT = spec_perPeriodContribution M F;
          compoundedPrincipal = P * (1 + r / real n) ^ (n * T);
          annuityValue =
            (if r > 0 then PMT * (((1 + r / real n) ^ (n * T) - 1) / (r / real n))
             else PMT * real n * real T);
          finalBalance = compoundedPrincipal + annuityValue
      in \<lparr>totalBalance = finalBalance, totalContributed = P + M * 12 * real T,
          totalInterest = finalBalance - (P + M * 12 * real T)\<rparr>)"

text \<open>The validity invariant of \<open>ProjectionInput\<close>.\<close>

definition spec_valid :: "real \<Rightarrow> real \<Rightarrow> real \<Rightarrow> real \<Rightarrow> bool" where
  "spec_valid initialPrincipal periodicContribution horizonYears annualReturnRatePercent \<longleftrightarrow>
     (initialPrincipal > 0 \<or> periodicContribution > 0) \<and>
     1 \<le> horizonYears \<and> horizonYears \<le> 100 \<and>
     0 \<le> annualReturnRatePercent \<and> annualReturnRatePercent \<le> 100"

text \<open>The three sequential FHSA checks, first match wins.\<close>

definition spec_fhsaWarning :: "real \<Rightarrow> real \<Rightarrow> real \<Rightarrow> warning option" where
  "spec_fhsaWarning annualContribution initialLump horizonYears =
     (if annualContribution > 8000 then Some (FhsaAnnualExceeded annualContribution)
      else if initialLump > 40000 then Some (FhsaInitialExceeded initialLump)
      else if annualContribution * horizonYears > 40000
        then Some (FhsaLifetimeReached \<lfloor>40000 / annualContribution\<rfloor>)
      else None)"

section \<open>Facts about the engine\<close>

subsection \<open>Frequency helpers\<close>

lemma getCompoundFrequencyPerYear_pos: "0 < getCompoundFrequencyPerYear F"
  by (cases F) simp_all

lemma contribution_per_year:
  "getContributionPerPeriod M F * getCompoundFrequencyPerYear F = M * 12"
  by (cases F) simp_all

lemma getContributionPerPeriod_nonneg: "0 \<le> M \<Longrightarrow> 0 \<le> getContributionPerPeriod M F"
  by (cases F) simp_all

lemma base_ge_1: "0 \<le> R \<Longrightarrow> 1 \<le> 1 + R / 100 / getCompoundFrequencyPerYear F"
  using getCompoundFrequencyPerYear_pos [of F] by simp

lemma spec_periodsPerYear_eq: "real (spec_periodsPerYear F) = getCompoundFrequencyPerYear F"
  by (cases F) simp_all

lemma spec_perPeriodContribution_eq:
  "spec_perPeriodContribution M F = getContributionPerPeriod M F"
  by (cases F) simp_all

subsection \<open>The three fields of a projection\<close>

lemma totalBalance_unfold:
  "totalBalance (calculateCompoundInterest P M R T F) =
     P * (1 + R / 100 / getCompoundFrequencyPerYear F) powr (getCompoundFrequencyPerYear F * T) +
     (if R > 0
      then getContributionPerPeriod M F *
           (((1 + R / 100 / getCompoundFrequencyPerYear F) powr
               (getCompoundFrequencyPerYear F * T) - 1)
            / (R / 100 / getCompoundFrequencyPerYear F))
      else getContributionPerPeriod M F * getCompoundFrequencyPerYear F * T)"
  by (simp add: calculateCompoundInterest_def Math_pow_def Let_def)

lemma totalContributed_unfold:
  "totalContributed (calculateCompoundInterest P M R T F) = P + M * 12 * T"
  by (simp add: calculateCompoundInterest_def Let_def)


subsection \<open>Whole numbers of periods\<close>

lemma powr_whole_periods:
  assumes "0 \<le> R"
  shows "(1 + R / 100 / getCompoundFrequencyPerYear F) powr
           (getCompoundFrequencyPerYear F * real k)
       = (1 + R / 100 / real (spec_periodsPerYear F)) ^ (spec_periodsPerYear F * k)"
proof -
  have "0 < 1 + R / 100 / getCompoundFrequencyPerYear F"
    using base_ge_1 [OF assms, of F] by linarith
  then have "(1 + R / 100 / getCompoundFrequencyPerYear F) powr real (spec_periodsPerYear F * k)
       = (1 + R / 100 / getCompoundFrequencyPerYear F) ^ (spec_periodsPerYear F * k)"
    by (rule powr_realpow)
  then show ?thesis
    by (simp add: spec_periodsPerYear_eq)
qed

lemma whole_positive_ge_1:
  fixes T :: real
  assumes "T \<in> \<int>"
  shows "0 < T \<longleftrightarrow> 1 \<le> T"
proof -
  from assms obtain k :: int where "T = of_int k" by (auto elim: Ints_cases)
  then show ?thesis by auto
qed

subsection \<open>The balance grows with the horizon\<close>

lemma balance_mono:
  assumes "0 \<le> P" "0 \<le> M" "0 \<le> R" "T1 \<le> T2"
  shows "totalBalance (calculateCompoundInterest P M R T1 F)
       \<le> totalBalance (calculateCompoundInterest P M R T2 F)"
proof -
  let ?n = "getCompoundFrequencyPerYear F"
  let ?b = "1 + R / 100 / ?n"
  let ?pmt = "getContributionPerPeriod M F"
  have n: "0 < ?n" by (rule getCompoundFrequencyPerYear_pos)
  have b: "1 \<le> ?b" using assms(3) by (rule base_ge_1)
  have pmt: "0 \<le> ?pmt" using assms(2) by (rule getContributionPerPeriod_nonneg)
  have e: "?n * T1 \<le> ?n * T2" using n assms(4) by simp
  have pw: "?b powr (?n * T1) \<le> ?b powr (?n * T2)"
    using e b by (rule powr_mono)
  have princ: "P * ?b powr (?n * T1) \<le> P * ?b powr (?n * T2)"
    using pw assms(1) by (rule mult_left_mono)
  show ?thesis
  proof (cases "R > 0")
    case True
    then have i: "0 < R / 100 / ?n" using n by simp
    have "(?b powr (?n * T1) - 1) / (R / 100 / ?n) \<le> (?b powr (?n * T2) - 1) / (R / 100 / ?n)"
    proof (rule divide_right_mono)
      show "?b powr (?n * T1) - 1 \<le> ?b powr (?n * T2) - 1" using pw by simp
      show "0 \<le> R / 100 / ?n" using i by simp
    qed
    then have "?pmt * ((?b powr (?n * T1) - 1) / (R / 100 / ?n))
             \<le> ?pmt * ((?b powr (?n * T2) - 1) / (R / 100 / ?n))"
      using pmt by (rule mult_left_mono)
    with princ True show ?thesis
      unfolding totalBalance_unfold by simp
  next
    case False
    have "?pmt * ?n * T1 \<le> ?pmt * ?n * T2"
      using pmt n assms(4) by (simp add: mult_left_mono)
    with princ False show ?thesis
      unfolding totalBalance_unfold by simp
  qed
qed

subsection \<open>Bernoulli's inequality for a real exponent\<close>





subsection \<open>The loop of the trajectory generator\<close>

text \<open>
  The loop appends one point per counter value from \<open>t\<close> up to the whole part of
  \<open>years\<close>; for a negative \<open>years\<close> it appends nothing.
\<close>

lemma yearlyLoop_eq:
  "yearlyLoop P M R Y F t data =
     data @ map (yearlyPoint P M R Y F) [t ..< nat (\<lfloor>Y\<rfloor> + 1)]"
proof (induction P M R Y F t data rule: yearlyLoop.induct)
  case (1 P M R Y F t data)
  show ?case
  proof (cases "real t \<le> Y")
    case True
    then have "int t \<le> \<lfloor>Y\<rfloor>" by (simp add: le_floor_iff)
    then have lt: "t < nat (\<lfloor>Y\<rfloor> + 1)" by linarith
    have "yearlyLoop P M R Y F t data =
          yearlyLoop P M R Y F (Suc t) (data @ [yearlyPoint P M R Y F t])"
      using True by (subst yearlyLoop.simps) simp
    also have "\<dots> = (data @ [yearlyPoint P M R Y F t]) @
                    map (yearlyPoint P M R Y F) [Suc t ..< nat (\<lfloor>Y\<rfloor> + 1)]"
      using True by (rule "1.IH")
    also have "\<dots> = data @ map (yearlyPoint P M R Y F) [t ..< nat (\<lfloor>Y\<rfloor> + 1)]"
      using lt by (simp add: upt_conv_Cons)
    finally show ?thesis .
  next
    case False
    then have "\<lfloor>Y\<rfloor> < int t" by (simp add: floor_less_iff)
    then have "nat (\<lfloor>Y\<rfloor> + 1) \<le> t" by linarith
    then have "[t ..< nat (\<lfloor>Y\<rfloor> + 1)] = []" by simp
    moreover have "yearlyLoop P M R Y F t data = data"
      using False by (subst yearlyLoop.simps) simp
    ultimately show ?thesis by simp
  qed
qed

lemma calculateYearlyData_eq:
  "calculateYearlyData P M R Y F = map (yearlyPoint P M R Y F) [0 ..< nat (\<lfloor>Y\<rfloor> + 1)]"
  by (simp add: calculateYearlyData_def yearlyLoop_eq)

lemma calculateYearlyData_whole:
  "calculateYearlyData P M R (real k) F = map (yearlyPoint P M R (real k) F) [0 ..< k + 1]"
proof -
  have "nat (\<lfloor>real k\<rfloor> + 1) = k + 1" by simp
  then show ?thesis by (simp only: calculateYearlyData_eq)
qed

lemma yearlyPoint_projection:
  "pt_totalBalance (yearlyPoint P M R Y F t) =
     totalBalance (calculateCompoundInterest P M R (real t) F) \<and>
   pt_totalContributed (yearlyPoint P M R Y F t) =
     totalContributed (calculateCompoundInterest P M R (real t) F) \<and>
   pt_year (yearlyPoint P M R Y F t) = t"
  by (simp add: yearlyPoint_def calculateCompoundInterest_def Let_def)

subsection \<open>The comparison scenarios of a valid input\<close>

lemma comparisonScenariosOf_valid:
  assumes "isValidInputs P M T R"
  shows "comparisonScenariosOf P M T R F = Some
     ([\<lparr>sc_label = ''Start Now'', sc_years = T,
        sc_totalBalance = totalBalance (calculateCompoundInterest P M R T F),
        sc_highlight = True, sc_missedAmount = 0\<rparr>] @
      (if T \<ge> 5 then
         [\<lparr>sc_label = ''Wait 5 Years'', sc_years = T - 5,
           sc_totalBalance = totalBalance (calculateCompoundInterest P M R (T - 5) F),
           sc_highlight = False,
           sc_missedAmount = totalBalance (calculateCompoundInterest P M R T F)
             - totalBalance (calculateCompoundInterest P M R (T - 5) F)\<rparr>]
       else []) @
      (if T \<ge> 10 then
         [\<lparr>sc_label = ''Wait 10 Years'', sc_years = T - 10,
           sc_totalBalance = totalBalance (calculateCompoundInterest P M R (T - 10) F),
           sc_highlight = False,
           sc_missedAmount = totalBalance (calculateCompoundInterest P M R T F)
             - totalBalance (calculateCompoundInterest P M R (T - 10) F)\<rparr>]
       else []))"
  using assms by (simp add: comparisonScenariosOf_def Let_def)

subsection \<open>The RRSP warning of the first variant\<close>

text \<open>
  The first variant of the page has no income field: for an RRSP it compares twelve times
  the monthly contribution with the flat cap of 31,560.
\<close>

lemma rrsp_warning_first_variant:
  assumes "accountType st = RRSP"
  shows "accountWarningA st =
     (if orZero (monthlyContribution st) * 12 > 31560
      then Some (AnnualOverA RRSP (orZero (monthlyContribution st))
                   (orZero (monthlyContribution st) * 12) 31560 2630)
      else None)"
proof -
  have "\<lfloor>31560 / 12 :: real\<rfloor> = 2630" by linarith
  then show ?thesis
    using assms by (simp add: accountWarningA_def Math_floor_def Let_def)
qed

section \<open>Claims\<close>

text \<open>
  C1. For every valid input (\<open>P \<ge> 0\<close>, \<open>M \<ge> 0\<close>, \<open>R\<close> in [0,100], \<open>T \<ge> 1\<close>, any
  frequency) the balance calculator returns what the specification's Balance Calculator
  describes: the compounded principal plus the annuity value (the closed form for a
  positive rate, the linear sum at rate zero), \<open>totalContributed = P + M * 12 * T\<close> and
  \<open>totalInterest = totalBalance - totalContributed\<close>, with \<open>n\<close> and \<open>PMT\<close> from the
  Frequency Resolver. For a horizon of whole years the power is the product over
  \<open>n * T\<close> periods.
\<close>

theorem balance_formula:
  assumes "0 \<le> P" "0 \<le> M" "0 \<le> R" "R \<le> 100" "1 \<le> T"
  shows "calculateCompoundInterest P M R T F = spec_project P M R T F \<and>
         (\<forall>k. T = real k \<longrightarrow>
            calculateCompoundInterest P M R T F = spec_project_whole P M R k F)"
proof
  show "calculateCompoundInterest P M R T F = spec_project P M R T F"
    by (simp add: calculateCompoundInterest_def spec_project_def Math_pow_def Let_def
        spec_periodsPerYear_eq spec_perPeriodContribution_eq)
next
  show "\<forall>k. T = real k \<longrightarrow>
          calculateCompoundInterest P M R T F = spec_project_whole P M R k F"
  proof (intro allI impI)
    fix k :: nat
    assume T: "T = real k"
    show "calculateCompoundInterest P M R T F = spec_project_whole P M R k F"
      unfolding T calculateCompoundInterest_def spec_project_whole_def Math_pow_def Let_def
        powr_whole_periods [OF assms(3)] spec_perPeriodContribution_eq
      by (simp add: spec_periodsPerYear_eq)
  qed
qed

text \<open>
  The specification's scenario \<open>P = 0\<close>, \<open>M = 500\<close>, \<open>R = 7\<close>, \<open>T = 30\<close>, monthly: 360
  periods, 180,000 contributed.
\<close>

theorem balance_formula_witness:
  "calculateCompoundInterest 0 500 7 30 Monthly = spec_project_whole 0 500 7 30 Monthly \<and>
   totalContributed (calculateCompoundInterest 0 500 7 30 Monthly) = 180000"
proof -
  have "calculateCompoundInterest 0 500 7 30 Monthly = spec_project 0 500 7 30 Monthly \<and>
         (\<forall>k. (30::real) = real k \<longrightarrow>
            calculateCompoundInterest 0 500 7 30 Monthly = spec_project_whole 0 500 7 k Monthly)"
    by (rule balance_formula) simp_all
  then have "(30::real) = real (30::nat) \<longrightarrow>
      calculateCompoundInterest 0 500 7 30 Monthly = spec_project_whole 0 500 7 30 Monthly"
    by blast
  then have "calculateCompoundInterest 0 500 7 30 Monthly = spec_project_whole 0 500 7 30 Monthly"
    by simp
  then show ?thesis
    by (simp add: spec_project_whole_def Let_def)
qed

text \<open>
  C2, as the code has it. The three memo bodies return \<open>null\<close> exactly when the check
  \<open>(P > 0 or M > 0) and 0 < T \<le> 100 and 0 \<le> R \<le> 100\<close> fails; in particular whenever
  neither \<open>P\<close> nor \<open>M\<close> is positive. The lower bound on the horizon is \<open>0 < T\<close>, which
  for a horizon of whole years is the specification's \<open>1 \<le> T\<close>. Both variants of the
  page call these bodies, with \<open>M\<close> the parsed monthly field in the first and
  \<open>effectiveMonthly\<close> in the second.
\<close>

theorem invalid_input_yields_nothing:
  "(resultsOf P M T R F = None \<longleftrightarrow>
      \<not> ((P > 0 \<or> M > 0) \<and> 0 < T \<and> T \<le> 100 \<and> 0 \<le> R \<and> R \<le> 100)) \<and>
   (chartDataOf P M T R F = None \<longleftrightarrow>
      \<not> ((P > 0 \<or> M > 0) \<and> 0 < T \<and> T \<le> 100 \<and> 0 \<le> R \<and> R \<le> 100)) \<and>
   (comparisonScenariosOf P M T R F = None \<longleftrightarrow>
      \<not> ((P > 0 \<or> M > 0) \<and> 0 < T \<and> T \<le> 100 \<and> 0 \<le> R \<and> R \<le> 100)) \<and>
   (P \<le> 0 \<and> M \<le> 0 \<longrightarrow>
      resultsOf P M T R F = None \<and> chartDataOf P M T R F = None \<and>
      comparisonScenariosOf P M T R F = None) \<and>
   (T \<in> \<int> \<longrightarrow>
      ((P > 0 \<or> M > 0) \<and> 0 < T \<and> T \<le> 100 \<and> 0 \<le> R \<and> R \<le> 100) = spec_valid P M T R)"
proof (intro conjI impI)
  show "resultsOf P M T R F = None \<longleftrightarrow>
      \<not> ((P > 0 \<or> M > 0) \<and> 0 < T \<and> T \<le> 100 \<and> 0 \<le> R \<and> R \<le> 100)"
    by (simp add: resultsOf_def isValidInputs_def)
  show "chartDataOf P M T R F = None \<longleftrightarrow>
      \<not> ((P > 0 \<or> M > 0) \<and> 0 < T \<and> T \<le> 100 \<and> 0 \<le> R \<and> R \<le> 100)"
    by (simp add: chartDataOf_def isValidInputs_def)
  show "comparisonScenariosOf P M T R F = None \<longleftrightarrow>
      \<not> ((P > 0 \<or> M > 0) \<and> 0 < T \<and> T \<le> 100 \<and> 0 \<le> R \<and> R \<le> 100)"
    by (simp add: comparisonScenariosOf_def isValidInputs_def Let_def)
next
  assume "P \<le> 0 \<and> M \<le> 0"
  then have inv: "\<not> isValidInputs P M T R" by (simp add: isValidInputs_def)
  from inv show "resultsOf P M T R F = None" by (simp add: resultsOf_def)
  from inv show "chartDataOf P M T R F = None" by (simp add: chartDataOf_def)
  from inv show "comparisonScenariosOf P M T R F = None"
    by (simp add: comparisonScenariosOf_def)
next
  assume "T \<in> \<int>"
  then have "0 < T \<longleftrightarrow> 1 \<le> T" by (rule whole_positive_ge_1)
  then show "((P > 0 \<or> M > 0) \<and> 0 < T \<and> T \<le> 100 \<and> 0 \<le> R \<and> R \<le> 100)
      = spec_valid P M T R"
    by (simp add: spec_valid_def)
qed

theorem invalid_input_yields_nothing_witness:
  "resultsOf 0 0 10 5 Monthly = None \<and> chartDataOf 0 0 10 5 Monthly = None \<and>
   comparisonScenariosOf 0 0 10 5 Monthly = None \<and> \<not> spec_valid 0 0 10 5"
  using invalid_input_yields_nothing [of 0 0 10 5 Monthly] by simp

text \<open>
  C2 as stated fails for a horizon of half a year: it is outside [1,100], yet the check
  accepts it and all three outputs are produced.
\<close>

theorem half_year_is_accepted:
  "\<not> spec_valid 1000 0 (1 / 2) 5 \<and>
   isValidInputs 1000 0 (1 / 2) 5 \<and>
   resultsOf 1000 0 (1 / 2) 5 Monthly \<noteq> None \<and>
   chartDataOf 1000 0 (1 / 2) 5 Monthly \<noteq> None \<and>
   comparisonScenariosOf 1000 0 (1 / 2) 5 Monthly \<noteq> None"
  by (simp add: spec_valid_def resultsOf_def chartDataOf_def comparisonScenariosOf_def
      isValidInputs_def Let_def)

text \<open>
  C3. The claim counts \<open>T + 1\<close> points and indexes the trajectory at \<open>T\<close>, so its horizon
  is a whole number of years \<open>k\<close>. For every such valid input the chart data is the
  trajectory, it has exactly \<open>k + 1\<close> points for the years \<open>0, ..., k\<close> in order, and its
  last point, at index \<open>k\<close>, carries the balance and the contributed total of the direct
  projection.
\<close>

theorem trajectory_ends_at_projection:
  assumes "isValidInputs P M (real k) R"
  shows "chartDataOf P M (real k) R F = Some (calculateYearlyData P M R (real k) F) \<and>
         length (calculateYearlyData P M R (real k) F) = k + 1 \<and>
         map pt_year (calculateYearlyData P M R (real k) F) = [0 ..< k + 1] \<and>
         last (calculateYearlyData P M R (real k) F) = calculateYearlyData P M R (real k) F ! k \<and>
         pt_totalBalance (calculateYearlyData P M R (real k) F ! k) =
           totalBalance (calculateCompoundInterest P M R (real k) F) \<and>
         pt_totalContributed (calculateYearlyData P M R (real k) F ! k) =
           totalContributed (calculateCompoundInterest P M R (real k) F)"
proof -
  let ?d = "calculateYearlyData P M R (real k) F"
  have d: "?d = map (yearlyPoint P M R (real k) F) [0 ..< k + 1]"
    by (rule calculateYearlyData_whole)
  have len: "length ?d = k + 1" by (simp add: d)
  have nth: "?d ! k = yearlyPoint P M R (real k) F k"
  proof -
    have "k < length [0 ..< k + 1]" by simp
    then have "map (yearlyPoint P M R (real k) F) [0 ..< k + 1] ! k
             = yearlyPoint P M R (real k) F ([0 ..< k + 1] ! k)"
      by (rule nth_map)
    also have "[0 ..< k + 1] ! k = k"
      using nth_upt [of 0 k "k + 1"] by simp
    finally show ?thesis by (simp only: d)
  qed
  have years: "map pt_year ?d = [0 ..< k + 1]"
    unfolding d by (simp add: yearlyPoint_projection map_idI)
  have "?d \<noteq> []" using len by auto
  then have lst: "last ?d = ?d ! k"
    using len by (simp add: last_conv_nth)
  have some: "chartDataOf P M (real k) R F = Some ?d"
    using assms by (simp add: chartDataOf_def)
  show ?thesis
    using some len years lst yearlyPoint_projection [of P M R "real k" F k]
    by (simp only: nth simp_thms)
qed

theorem trajectory_ends_at_projection_witness:
  "isValidInputs 1000 100 2 5 \<and>
   length (calculateYearlyData 1000 100 5 2 Monthly) = 3 \<and>
   map pt_year (calculateYearlyData 1000 100 5 2 Monthly) = [0, 1, 2] \<and>
   pt_totalBalance (calculateYearlyData 1000 100 5 2 Monthly ! 2) =
     totalBalance (calculateCompoundInterest 1000 100 5 2 Monthly)"
proof -
  have v: "isValidInputs 1000 100 (real (2::nat)) 5"
    by (simp add: isValidInputs_def)
  have "[0 ..< (2::nat) + 1] = [0, 1, 2]"
    by (simp add: upt_conv_Cons)
  with v trajectory_ends_at_projection [OF v, of Monthly] show ?thesis
    by simp
qed

text \<open>
  C4. For \<open>P \<ge> 0\<close>, \<open>M \<ge> 0\<close> and \<open>R \<ge> 0\<close> the balance is non-decreasing in the horizon.
  Hence in every list of comparison scenarios the balances descend from "Start Now" over
  "Wait 5 Years" to "Wait 10 Years", and every missed amount, the baseline balance minus
  the scenario's balance, is at least 0. This holds at rate zero too, and needs no upper
  bound on the rate.
\<close>

theorem waiting_never_pays:
  assumes "0 \<le> P" "0 \<le> M" "0 \<le> R"
  shows "(T1 \<le> T2 \<longrightarrow>
            totalBalance (calculateCompoundInterest P M R T1 F)
              \<le> totalBalance (calculateCompoundInterest P M R T2 F)) \<and>
         (\<forall>scs. comparisonScenariosOf P M T R F = Some scs \<longrightarrow>
            sorted_wrt (\<lambda>a b. b \<le> a) (map sc_totalBalance scs) \<and>
            (\<forall>s \<in> set scs.
               sc_missedAmount s
                 = totalBalance (calculateCompoundInterest P M R T F) - sc_totalBalance s \<and>
               0 \<le> sc_missedAmount s) \<and>
            map sc_label scs =
              [''Start Now''] @ (if T \<ge> 5 then [''Wait 5 Years''] else []) @
              (if T \<ge> 10 then [''Wait 10 Years''] else []))"
proof (intro conjI allI impI)
  assume "T1 \<le> T2"
  with assms show "totalBalance (calculateCompoundInterest P M R T1 F)
              \<le> totalBalance (calculateCompoundInterest P M R T2 F)"
    by (rule balance_mono)
next
  fix scs
  assume some: "comparisonScenariosOf P M T R F = Some scs"
  then have valid: "isValidInputs P M T R"
    by (auto simp: comparisonScenariosOf_def split: if_splits)
  have b5: "totalBalance (calculateCompoundInterest P M R (T - 5) F)
              \<le> totalBalance (calculateCompoundInterest P M R T F)"
    using assms by (rule balance_mono) simp
  have b10: "totalBalance (calculateCompoundInterest P M R (T - 10) F)
              \<le> totalBalance (calculateCompoundInterest P M R T F)"
    using assms by (rule balance_mono) simp
  have b105: "totalBalance (calculateCompoundInterest P M R (T - 10) F)
              \<le> totalBalance (calculateCompoundInterest P M R (T - 5) F)"
    using assms by (rule balance_mono) simp
  note scs = some [unfolded comparisonScenariosOf_valid [OF valid], simplified]
  show "sorted_wrt (\<lambda>a b. b \<le> a) (map sc_totalBalance scs)"
    using b5 b10 b105 by (simp add: scs [symmetric])
  show "\<forall>s \<in> set scs.
          sc_missedAmount s
            = totalBalance (calculateCompoundInterest P M R T F) - sc_totalBalance s \<and>
          0 \<le> sc_missedAmount s"
    using b5 b10 by (auto simp: scs [symmetric])
  show "map sc_label scs =
          [''Start Now''] @ (if T \<ge> 5 then [''Wait 5 Years''] else []) @
          (if T \<ge> 10 then [''Wait 10 Years''] else [])"
    by (simp add: scs [symmetric])
qed

theorem waiting_never_pays_witness:
  "totalBalance (calculateCompoundInterest 1000 100 5 7 Monthly)
     \<le> totalBalance (calculateCompoundInterest 1000 100 5 12 Monthly) \<and>
   comparisonScenariosOf 1000 100 12 5 Monthly \<noteq> None \<and>
   map sc_label (the (comparisonScenariosOf 1000 100 12 5 Monthly))
     = [''Start Now'', ''Wait 5 Years'', ''Wait 10 Years''] \<and>
   sorted_wrt (\<lambda>a b. b \<le> a)
     (map sc_totalBalance (the (comparisonScenariosOf 1000 100 12 5 Monthly))) \<and>
   list_all (\<lambda>s. 0 \<le> sc_missedAmount s) (the (comparisonScenariosOf 1000 100 12 5 Monthly))"
proof -
  have v: "isValidInputs 1000 100 12 5" by (simp add: isValidInputs_def)
  obtain scs where scs: "comparisonScenariosOf 1000 100 12 5 Monthly = Some scs"
    using comparisonScenariosOf_valid [OF v] by blast
  have h: "(0::real) \<le> 1000" "(0::real) \<le> 100" "(0::real) \<le> 5" by simp_all
  from waiting_never_pays [OF h, of 7 12 Monthly 12] scs show ?thesis
    by (auto simp: list_all_iff)
qed

text \<open>
  C5. At an annual rate of zero the balance is exactly the money paid in, for every
  frequency (Daily included): \<open>totalBalance = P + M * 12 * T\<close> and \<open>totalInterest = 0\<close>.
  The equation needs no sign condition on \<open>P\<close>, \<open>M\<close> or \<open>T\<close>.
\<close>

theorem zero_rate_balance:
  "totalBalance (calculateCompoundInterest P M 0 T F) = P + M * 12 * T \<and>
   totalInterest (calculateCompoundInterest P M 0 T F) = 0"
  using contribution_per_year [of M F]
  by (simp add: calculateCompoundInterest_def Math_pow_def Let_def)

text \<open>
  C6. For an RESP the monthly figure is \<open>(annual + grant) / 12\<close> with
  \<open>grant = min (annual * 0.20) 500\<close>, and this figure is what the balance calculator and
  the trajectory generator receive: on a valid input the projection is
  \<open>calculateCompoundInterest\<close> and the chart data \<open>calculateYearlyData\<close> at that monthly
  contribution, otherwise both are \<open>null\<close>. The yearly inflow \<open>12 * effectiveMonthly\<close> is
  at most \<open>annual * 1.20\<close>, the grant is at most 500, and so is the difference between the
  inflow and the contribution, however large the contribution.
\<close>

theorem resp_grant:
  assumes "accountType st = RESP"
  shows "let annual = orZero (respAnnualContribution st);
             grant = min (annual * 0.20) 500;
             initial = orZero (initialInvestment st);
             years = orZero (lengthOfTime st);
             returnRate = orZero (annualReturn st)
         in effectiveMonthly st = (annual + grant) / 12 \<and>
            results st =
              (if isValidInputs initial ((annual + grant) / 12) years returnRate
               then Some (calculateCompoundInterest initial ((annual + grant) / 12) returnRate
                            years (compoundFrequency st))
               else None) \<and>
            chartData st =
              (if isValidInputs initial ((annual + grant) / 12) years returnRate
               then Some (calculateYearlyData initial ((annual + grant) / 12) returnRate
                            years (compoundFrequency st))
               else None) \<and>
            12 * effectiveMonthly st \<le> annual * 1.20 \<and>
            grant \<le> 500 \<and>
            12 * effectiveMonthly st - annual \<le> 500"
proof -
  let ?annual = "orZero (respAnnualContribution st)"
  let ?grant = "min (?annual * 0.20) 500"
  let ?initial = "orZero (initialInvestment st)"
  let ?years = "orZero (lengthOfTime st)"
  let ?rate = "orZero (annualReturn st)"
  let ?m = "(?annual + ?grant) / 12"
  have eff: "effectiveMonthly st = ?m"
    using assms by (simp add: effectiveMonthly_def Let_def)
  have g1: "?grant \<le> ?annual * 0.20" by (rule min.cobounded1)
  have g2: "?grant \<le> 500" by (rule min.cobounded2)
  have inflow: "12 * effectiveMonthly st = ?annual + ?grant"
    unfolding eff by simp
  have b1: "12 * effectiveMonthly st \<le> ?annual * 1.20"
    unfolding inflow using g1 by simp
  have b2: "12 * effectiveMonthly st - ?annual \<le> 500"
    unfolding inflow using g2 by simp
  have r: "results st =
      (if isValidInputs ?initial ?m ?years ?rate
       then Some (calculateCompoundInterest ?initial ?m ?rate ?years (compoundFrequency st))
       else None)"
    unfolding results_def eff resultsOf_def by simp
  have c: "chartData st =
      (if isValidInputs ?initial ?m ?years ?rate
       then Some (calculateYearlyData ?initial ?m ?rate ?years (compoundFrequency st))
       else None)"
    unfolding chartData_def eff chartDataOf_def by simp
  show ?thesis
    unfolding Let_def using eff r c b1 g2 b2 by (intro conjI)
qed

text \<open>
  The specification's scenario: 2,500 a year earns a grant of 500, inflow 3,000; over ten
  years the calculator books 30,000 as contributed.
\<close>

theorem resp_grant_witness:
  "effectiveMonthly (initialForm\<lparr>lengthOfTime := Some 10, annualReturn := Some 5,
       accountType := RESP, respAnnualContribution := Some 2500\<rparr>) = 3000 / 12 \<and>
   results (initialForm\<lparr>lengthOfTime := Some 10, annualReturn := Some 5,
       accountType := RESP, respAnnualContribution := Some 2500\<rparr>)
     = Some (calculateCompoundInterest 0 250 5 10 Monthly) \<and>
   chartData (initialForm\<lparr>lengthOfTime := Some 10, annualReturn := Some 5,
       accountType := RESP, respAnnualContribution := Some 2500\<rparr>)
     = Some (calculateYearlyData 0 250 5 10 Monthly) \<and>
   totalContributed (calculateCompoundInterest 0 250 5 10 Monthly) = 30000"
  using resp_grant [of "initialForm\<lparr>lengthOfTime := Some 10, annualReturn := Some 5,
       accountType := RESP, respAnnualContribution := Some 2500\<rparr>"]
  by (simp add: initialForm_def orZero_def Let_def isValidInputs_def totalContributed_unfold)

text \<open>
  C7. For an FHSA the warning is the first match of three checks: the annual contribution
  above 8,000; else the initial investment above 40,000; else the product of the annual
  contribution and the horizon above 40,000, reported with the year
  \<open>floor (40000 / annual)\<close>; else no warning. The code writes the third check with the
  extra guard \<open>annual > 0\<close>, which keeps the division defined; for every contribution or
  horizon that is not negative the guard is implied by the product being above 40,000,
  and the warning is the one the specification's three checks give.
\<close>

theorem fhsa_warning:
  assumes "accountType st = FHSA"
  shows "let annual = orZero (fhsaAnnualContribution st);
             initial = orZero (initialInvestment st);
             years = orZero (lengthOfTime st)
         in accountWarning st =
              (if annual > 8000 then Some (FhsaAnnualExceeded annual)
               else if initial > 40000 then Some (FhsaInitialExceeded initial)
               else if annual > 0 \<and> annual * years > 40000
                 then Some (FhsaLifetimeReached \<lfloor>40000 / annual\<rfloor>)
               else None) \<and>
            (0 \<le> annual \<or> 0 \<le> years \<longrightarrow>
               accountWarning st = spec_fhsaWarning annual initial years)"
proof -
  have neg: "\<not> a * y > 40000" if "\<not> a > 0" "0 \<le> a \<or> 0 \<le> y" for a y :: real
  proof -
    have "a * y \<le> 0"
      using that by (auto simp: mult_le_0_iff not_less)
    then show ?thesis by simp
  qed
  show ?thesis
    using assms neg [of "orZero (fhsaAnnualContribution st)" "orZero (lengthOfTime st)"]
    by (auto simp: accountWarning_def spec_fhsaWarning_def Math_floor_def Let_def)
qed

theorem fhsa_warning_witness:
  "accountWarning (initialForm\<lparr>accountType := FHSA, fhsaAnnualContribution := Some 6000,
       lengthOfTime := Some 10\<rparr>) = Some (FhsaLifetimeReached 6) \<and>
   spec_fhsaWarning 6000 0 10 = Some (FhsaLifetimeReached 6)"
proof -
  have "\<lfloor>40000 / 6000 :: real\<rfloor> = 6" by linarith
  then show ?thesis
    using fhsa_warning [of "initialForm\<lparr>accountType := FHSA,
       fhsaAnnualContribution := Some 6000, lengthOfTime := Some 10\<rparr>"]
    by (simp add: initialForm_def orZero_def Let_def spec_fhsaWarning_def)
qed

text \<open>
  C8, as the two variants of the page have it. In the second variant, for an RRSP the cap
  is \<open>min (income * 0.18) 31560\<close>, the expression the code compares with. When income and
  contribution are both positive, the warning (carrying contribution and cap) is produced
  if and only if the contribution exceeds the cap, and the confirmation if and only if it
  does not. When either is not positive, in particular when a field is empty or zero,
  neither is produced. The first variant has no income field and no confirmation: its
  RRSP warning is produced if and only if twelve times the monthly contribution exceeds
  the flat 31,560.
\<close>

theorem rrsp_advisory:
  assumes "accountType st = RRSP"
  shows "let income = orZero (rrspAnnualIncome st);
             annual = orZero (rrspAnnualContribution st);
             cap = min (income * 0.18) 31560;
             monthly = orZero (monthlyContribution st)
         in (annual > 0 \<and> income > 0 \<longrightarrow>
               accountWarning st =
                 (if annual > cap then Some (RrspLimitExceeded annual cap) else None) \<and>
               accountConfirmation st =
                 (if annual \<le> cap then Some (RrspWithinLimit annual cap) else None)) \<and>
            (\<not> (annual > 0 \<and> income > 0) \<longrightarrow>
               accountWarning st = None \<and> accountConfirmation st = None) \<and>
            (rrspAnnualIncome st \<in> {None, Some 0} \<or> rrspAnnualContribution st \<in> {None, Some 0}
               \<longrightarrow> accountWarning st = None \<and> accountConfirmation st = None) \<and>
            accountWarningA st =
              (if monthly * 12 > 31560
               then Some (AnnualOverA RRSP monthly (monthly * 12) 31560 2630)
               else None)"
proof -
  have a: "accountWarningA st =
     (if orZero (monthlyContribution st) * 12 > 31560
      then Some (AnnualOverA RRSP (orZero (monthlyContribution st))
                   (orZero (monthlyContribution st) * 12) 31560 2630)
      else None)"
    using assms by (rule rrsp_warning_first_variant)
  show ?thesis
    unfolding Let_def
    using assms a
    by (auto simp: accountWarning_def accountConfirmation_def orZero_def Let_def)
qed

theorem rrsp_advisory_witness:
  "accountWarning (initialForm\<lparr>accountType := RRSP, rrspAnnualIncome := Some 100000,
       rrspAnnualContribution := Some 20000\<rparr>) = Some (RrspLimitExceeded 20000 18000) \<and>
   accountConfirmation (initialForm\<lparr>accountType := RRSP, rrspAnnualIncome := Some 100000,
       rrspAnnualContribution := Some 20000\<rparr>) = None \<and>
   accountWarning (initialForm\<lparr>accountType := RRSP, rrspAnnualIncome := None,
       rrspAnnualContribution := Some 20000\<rparr>) = None \<and>
   accountConfirmation (initialForm\<lparr>accountType := RRSP, rrspAnnualIncome := Some 100000,
       rrspAnnualContribution := Some 10000\<rparr>) = Some (RrspWithinLimit 10000 18000) \<and>
   accountWarningA (initialForm\<lparr>monthlyContribution := Some 1000, accountType := RRSP\<rparr>) = None"
  using rrsp_advisory [of "initialForm\<lparr>accountType := RRSP, rrspAnnualIncome := Some 100000,
       rrspAnnualContribution := Some 20000\<rparr>"]
    rrsp_advisory [of "initialForm\<lparr>accountType := RRSP, rrspAnnualIncome := None,
       rrspAnnualContribution := Some 20000\<rparr>"]
    rrsp_advisory [of "initialForm\<lparr>accountType := RRSP, rrspAnnualIncome := Some 100000,
       rrspAnnualContribution := Some 10000\<rparr>"]
    rrsp_advisory [of "initialForm\<lparr>monthlyContribution := Some 1000, accountType := RRSP\<rparr>"]
  by (simp add: initialForm_def orZero_def Let_def)

text \<open>
  C8 as stated fails in the first variant: with no income supplied at all, a monthly
  contribution of 3,000 produces a warning against the flat cap.
\<close>

theorem rrsp_first_variant_warns_without_income:
  "rrspAnnualIncome (initialForm\<lparr>monthlyContribution := Some 3000, accountType := RRSP\<rparr>) = None \<and>
   rrspAnnualContribution (initialForm\<lparr>monthlyContribution := Some 3000, accountType := RRSP\<rparr>)
     = None \<and>
   accountWarningA (initialForm\<lparr>monthlyContribution := Some 3000, accountType := RRSP\<rparr>)
     = Some (AnnualOverA RRSP 3000 36000 31560 2630)"
proof -
  have "\<lfloor>31560 / 12 :: real\<rfloor> = 2630" by linarith
  then show ?thesis
    by (simp add: accountWarningA_def initialForm_def orZero_def Math_floor_def Let_def)
qed

text \<open>
  C9. For a TFSA the warning is produced if and only if the annual contribution exceeds
  7,000, and the confirmation if and only if it is positive and at most 7,000.
\<close>

theorem tfsa_advisory:
  assumes "accountType st = TFSA"
  shows "let annual = orZero (tfsaAnnualContribution st)
         in accountWarning st = (if annual > 7000 then Some TfsaAnnualExceeded else None) \<and>
            accountConfirmation st =
              (if 0 < annual \<and> annual \<le> 7000 then Some (TfsaWithinLimit annual) else None)"
  using assms by (simp add: accountWarning_def accountConfirmation_def Let_def)

text \<open>The specification's scenario: 7,500 gives the warning, 6,000 the confirmation.\<close>

theorem tfsa_advisory_witness:
  "accountWarning (initialForm\<lparr>accountType := TFSA, tfsaAnnualContribution := Some 7500\<rparr>)
     = Some TfsaAnnualExceeded \<and>
   accountConfirmation (initialForm\<lparr>accountType := TFSA, tfsaAnnualContribution := Some 7500\<rparr>)
     = None \<and>
   accountWarning (initialForm\<lparr>accountType := TFSA, tfsaAnnualContribution := Some 6000\<rparr>)
     = None \<and>
   accountConfirmation (initialForm\<lparr>accountType := TFSA, tfsaAnnualContribution := Some 6000\<rparr>)
     = Some (TfsaWithinLimit 6000)"
  using tfsa_advisory [of "initialForm\<lparr>accountType := TFSA, tfsaAnnualContribution := Some 7500\<rparr>"]
    tfsa_advisory [of "initialForm\<lparr>accountType := TFSA, tfsaAnnualContribution := Some 6000\<rparr>"]
  by (simp add: initialForm_def orZero_def Let_def)




end
